theory Spec2Isabelle
  imports Complex_Main "HOL-Library.AList"
begin

section \<open>JavaScript values read by the gateway\<close>

text \<open>
  The gateway (\<^verbatim>\<open>build/index.js\<close>) inspects two kinds of untyped data: the parsed JSON body
  of a request and the value an operation throws.  Both are JavaScript values; the model
  keeps the constructors the code can tell apart.  An object is the list of its own
  properties (distinct names, in insertion order); \<open>map_of\<close> reads one.
\<close>

datatype jsval =
    JUndefined
  | JNull
  | JBool bool
  | JNumber real
  | JString string
  | JArray "jsval list"
  | JObject "(string \<times> jsval) list"

text \<open>JavaScript's truthiness: what \<^verbatim>\<open>if (v)\<close> and \<^verbatim>\<open>v || w\<close> test.\<close>

fun truthy :: "jsval \<Rightarrow> bool" where
  "truthy JUndefined = False"
| "truthy JNull = False"
| "truthy (JBool b) = b"
| "truthy (JNumber n) = (n \<noteq> 0)"
| "truthy (JString s) = (s \<noteq> [])"
| "truthy (JArray _) = True"
| "truthy (JObject _) = True"

text \<open>\<^verbatim>\<open>a || b\<close>: the left operand when it is truthy, the right one otherwise.\<close>

definition or_else :: "jsval \<Rightarrow> jsval \<Rightarrow> jsval" where
  "or_else a b = (if truthy a then a else b)"

text \<open>
  \<^verbatim>\<open>v?.name\<close> for the property names the gateway reads (\<^verbatim>\<open>method\<close>, \<^verbatim>\<open>response\<close>,
  \<^verbatim>\<open>data\<close>, \<^verbatim>\<open>errors\<close>, \<^verbatim>\<open>message\<close>): none of them is defined by a built-in prototype, so
  only an object's own property answers; on \<^verbatim>\<open>null\<close> and \<^verbatim>\<open>undefined\<close> the optional
  chain yields \<^verbatim>\<open>undefined\<close>.
\<close>

fun opt_member :: "jsval \<Rightarrow> string \<Rightarrow> jsval" where
  "opt_member (JObject ps) name = (case map_of ps name of Some v \<Rightarrow> v | None \<Rightarrow> JUndefined)"
| "opt_member _ name = JUndefined"

text \<open>\<^verbatim>\<open>v?.[0]\<close>: the first element of an array, the first character of a string.\<close>

fun opt_first :: "jsval \<Rightarrow> jsval" where
  "opt_first (JArray (x # _)) = x"
| "opt_first (JString (c # _)) = JString [c]"
| "opt_first (JObject ps) = (case map_of ps ''0'' of Some v \<Rightarrow> v | None \<Rightarrow> JUndefined)"
| "opt_first _ = JUndefined"

text \<open>
  \<^verbatim>\<open>new Error(message)\<close>, as far as the gateway reads it: an object with a message.  (An
  error made without one inherits the empty string, which \<^verbatim>\<open>||\<close> skips as it skips
  \<^verbatim>\<open>undefined\<close>.)
\<close>

definition Error :: "string \<Rightarrow> jsval" where
  "Error msg = JObject [(''message'', JString msg)]"

section \<open>Plain objects used as dictionaries\<close>

text \<open>
  \<^verbatim>\<open>transports = {}\<close> and \<^verbatim>\<open>sessionTimestamps = {}\<close> are plain objects keyed by session id.
  A plain object inherits from \<^verbatim>\<open>Object.prototype\<close>: reading \<^verbatim>\<open>obj[k]\<close> for a name that
  is not an own property yields the inherited member when \<^verbatim>\<open>k\<close> names one (a function, or
  the prototype itself for \<^verbatim>\<open>__proto__\<close>: truthy either way), and \<^verbatim>\<open>undefined\<close> otherwise.
\<close>

definition Object_prototype_keys :: "string list" where
  "Object_prototype_keys =
    [''constructor'', ''__defineGetter__'', ''__defineSetter__'', ''hasOwnProperty'',
     ''__lookupGetter__'', ''__lookupSetter__'', ''isPrototypeOf'', ''propertyIsEnumerable'',
     ''toString'', ''valueOf'', ''__proto__'', ''toLocaleString'']"

datatype 'a property = Own 'a | Inherited | Missing

definition get_prop :: "(string \<times> 'a) list \<Rightarrow> string \<Rightarrow> 'a property" where
  "get_prop obj k =
     (case map_of obj k of
        Some v \<Rightarrow> Own v
      | None \<Rightarrow> if k \<in> set Object_prototype_keys then Inherited else Missing)"

text \<open>
  \<^verbatim>\<open>obj[k] = v\<close>: an own property is written in place, a new one is appended.  The name
  \<^verbatim>\<open>__proto__\<close> is an accessor of the prototype: assigning a number to it is ignored and
  creates no own property.  (Assigning an object to it would replace the prototype; the
  only objects the gateway stores are transports, under a key returned by
  \<^verbatim>\<open>randomUUID()\<close>, which is never that name.)
\<close>

definition set_prop :: "(string \<times> 'a) list \<Rightarrow> string \<Rightarrow> 'a \<Rightarrow> (string \<times> 'a) list" where
  "set_prop obj k v = (if k = ''__proto__'' then obj else AList.update k v obj)"

text \<open>\<^verbatim>\<open>delete obj[k]\<close>: removes the own property if there is one; never throws here.\<close>

definition delete_prop :: "(string \<times> 'a) list \<Rightarrow> string \<Rightarrow> (string \<times> 'a) list" where
  "delete_prop obj k = AList.delete k obj"

text \<open>\<^verbatim>\<open>Object.keys(obj)\<close>: the own property names.\<close>

definition Object_keys :: "(string \<times> 'a) list \<Rightarrow> string list" where
  "Object_keys obj = map fst obj"

section \<open>The server object\<close>

text \<open>
  A transport is the SDK's \<^verbatim>\<open>StreamableHTTPServerTransport\<close>, created with a generator that
  returns the session id it is given.  The SDK is not part of the repository: the model
  records which of its methods the gateway calls, in order, and nothing of what they do;
  the calls are taken to return.
\<close>

datatype transport = StreamableHTTPServerTransport (sessionId_of: string)

datatype sdk_call =
    Connect transport        \<comment> \<open>\<^verbatim>\<open>await this.connect(transport)\<close>\<close>
  | HandleRequest transport  \<comment> \<open>\<^verbatim>\<open>await transport.handleRequest(req, res, ...)\<close>\<close>
  | Close transport          \<comment> \<open>\<^verbatim>\<open>transport.close()\<close>\<close>

record server =
  transports :: "(string \<times> transport) list"
  sessionTimestamps :: "(string \<times> int) list"
  transportMode :: string
  cleanupTimer :: "int option"   \<comment> \<open>period of the \<^verbatim>\<open>setInterval\<close> timer, in milliseconds\<close>
  sdk_calls :: "sdk_call list"

text \<open>
  The constructor: empty dictionaries; in HTTP mode a timer that runs
  \<^verbatim>\<open>cleanupOldSessions\<close> every \<^verbatim>\<open>5 * 60 * 1000\<close> milliseconds.
\<close>

definition AxwayMcpServer :: "string \<Rightarrow> server" where
  "AxwayMcpServer mode =
     \<lparr>transports = [], sessionTimestamps = [], transportMode = mode,
      cleanupTimer = (if mode = ''http'' then Some (5 * 60 * 1000) else None),
      sdk_calls = []\<rparr>"

section \<open>The reaper\<close>

text \<open>
  \<^verbatim>\<open>
  cleanupOldSessions() {
      const now = Date.now();
      const maxAge = 30 * 60 * 1000;
      Object.keys(this.sessionTimestamps).forEach(sessionId => {
          if (now - this.sessionTimestamps[sessionId] > maxAge) {
              delete this.transports[sessionId];
              delete this.sessionTimestamps[sessionId];
          }
      });
  }
  \<close>
  \<open>now\<close> is the value \<^verbatim>\<open>Date.now()\<close> returns.  \<open>sweep_one\<close> is the callback; a name whose
  value is not an own number gives \<^verbatim>\<open>NaN\<close> in the subtraction and the test is false.
\<close>

definition maxAge :: int where
  "maxAge = 30 * 60 * 1000"

definition sweep_one :: "int \<Rightarrow> string \<Rightarrow> server \<Rightarrow> server" where
  "sweep_one now sessionId s =
     (case get_prop (sessionTimestamps s) sessionId of
        Own t \<Rightarrow>
          if now - t > maxAge
          then s\<lparr>transports := delete_prop (transports s) sessionId,
                 sessionTimestamps := delete_prop (sessionTimestamps s) sessionId\<rparr>
          else s
      | Inherited \<Rightarrow> s
      | Missing \<Rightarrow> s)"

definition cleanupOldSessions :: "int \<Rightarrow> server \<Rightarrow> server" where
  "cleanupOldSessions now s = fold (sweep_one now) (Object_keys (sessionTimestamps s)) s"

text \<open>
  The handler stored in \<^verbatim>\<open>transport.onclose\<close> when a session is created; the SDK runs it
  when the transport closes.
  \<^verbatim>\<open>
  transport.onclose = () => {
      delete this.transports[sessionId];
      delete this.sessionTimestamps[sessionId];
  };
  \<close>
\<close>

definition onclose :: "string \<Rightarrow> server \<Rightarrow> server" where
  "onclose sessionId s =
     s\<lparr>transports := delete_prop (transports s) sessionId,
       sessionTimestamps := delete_prop (sessionTimestamps s) sessionId\<rparr>"

section \<open>Reading the session id\<close>

text \<open>ASCII case mapping, which is what the two methods do on the header name.\<close>

definition toUpperCase :: "string \<Rightarrow> string" where
  "toUpperCase =
     map (\<lambda>c. let n = (of_char c :: nat) in if 97 \<le> n \<and> n \<le> 122 then char_of (n - 32) else c)"

definition toLowerCase :: "string \<Rightarrow> string" where
  "toLowerCase =
     map (\<lambda>c. let n = (of_char c :: nat) in if 65 \<le> n \<and> n \<le> 90 then char_of (n + 32) else c)"

definition SESSION_ID_HEADER_NAME :: string where
  "SESSION_ID_HEADER_NAME = ''mcp-session-id''"

text \<open>
  \<^verbatim>\<open>
  getSessionIdFromHeaders(headers) {
      const variations = [ SESSION_ID_HEADER_NAME, SESSION_ID_HEADER_NAME.toLowerCase(),
          SESSION_ID_HEADER_NAME.toUpperCase(), 'mcp-session-id',
          'mcp-session-id'.toLowerCase(), 'mcp-session-id'.toUpperCase() ];
      for (const variation of variations) {
          if (headers[variation]) { return headers[variation]; }
      }
      return undefined;
  }
  \<close>
  A header map is the list of the names and values it holds; a value is a string, truthy
  when not empty.  \<open>None\<close> is \<^verbatim>\<open>undefined\<close>.
\<close>

definition variations :: "string list" where
  "variations =
     [SESSION_ID_HEADER_NAME, toLowerCase SESSION_ID_HEADER_NAME,
      toUpperCase SESSION_ID_HEADER_NAME, ''mcp-session-id'',
      toLowerCase ''mcp-session-id'', toUpperCase ''mcp-session-id'']"

fun first_header :: "(string \<times> string) list \<Rightarrow> string list \<Rightarrow> string option" where
  "first_header headers [] = None"
| "first_header headers (variation # rest) =
     (case map_of headers variation of
        Some v \<Rightarrow> if v \<noteq> [] then Some v else first_header headers rest
      | None \<Rightarrow> first_header headers rest)"

definition getSessionIdFromHeaders :: "(string \<times> string) list \<Rightarrow> string option" where
  "getSessionIdFromHeaders headers = first_header headers variations"

text \<open>
  The header map the function is given.  \<^verbatim>\<open>getSessionIdFromHeaders\<close> is called twice, both
  times on \<^verbatim>\<open>req.headers\<close> inside \<^verbatim>\<open>handleRequest\<close>, and \<^verbatim>\<open>handleRequest\<close> is called only
  by the callback \<^verbatim>\<open>main\<close> gives to \<^verbatim>\<open>createServer\<close> of \<^verbatim>\<open>node:http\<close>.  That module builds
  \<^verbatim>\<open>req.headers\<close> from the header lines of the message, in order: the name of each line is
  lower-cased, and a line whose lower-cased name is already in the map has its value
  combined with the one there.  How two values combine depends on the name (joined by a
  comma and a space for most names, the session-id name among them) and is the parameter
  \<open>merge\<close>, given the name, the value in the map and the new value.
\<close>

definition add_header ::
  "(string \<Rightarrow> string \<Rightarrow> string \<Rightarrow> string) \<Rightarrow> string \<times> string
     \<Rightarrow> (string \<times> string) list \<Rightarrow> (string \<times> string) list" where
  "add_header merge line dest =
     (let field = toLowerCase (fst line)
      in case map_of dest field of
           Some old \<Rightarrow> AList.update field (merge field old (snd line)) dest
         | None \<Rightarrow> AList.update field (snd line) dest)"

definition incoming_headers ::
  "(string \<Rightarrow> string \<Rightarrow> string \<Rightarrow> string) \<Rightarrow> (string \<times> string) list
     \<Rightarrow> (string \<times> string) list" where
  "incoming_headers merge raw = fold (add_header merge) raw []"

section \<open>Classifying a body as an initialize request\<close>

text \<open>
  \<^verbatim>\<open>
  isInitializeRequest(body) {
      const check = (data) => data?.method === 'initialize';
      if (Array.isArray(body)) { return body.some(check); }
      return check(body);
  }
  \<close>
\<close>

definition check :: "jsval \<Rightarrow> bool" where
  "check data = (opt_member data ''method'' = JString ''initialize'')"

fun isInitializeRequest :: "jsval \<Rightarrow> bool" where
  "isInitializeRequest (JArray xs) = list_ex check xs"
| "isInitializeRequest body = check body"

section \<open>The dispatcher\<close>

text \<open>
  A request as \<^verbatim>\<open>handleRequest\<close> reads it: the verb, the header map, and the body text,
  which is empty, or text \<^verbatim>\<open>JSON.parse\<close> rejects, or text it parses to a value.
\<close>

datatype body = NoBody | Malformed | Parsed jsval

record request =
  "method" :: string
  headers :: "(string \<times> string) list"
  body :: body

text \<open>\<^verbatim>\<open>const jsonBody = body ? JSON.parse(body) : null\<close>; \<open>None\<close> is the SyntaxError.\<close>

fun jsonBody_of :: "body \<Rightarrow> jsval option" where
  "jsonBody_of NoBody = Some JNull"
| "jsonBody_of Malformed = None"
| "jsonBody_of (Parsed v) = Some v"

text \<open>What the two clock and random sources return while one request is handled.\<close>

record env =
  Date_now :: int
  randomUUID :: string

text \<open>
  The way a call of \<^verbatim>\<open>handleRequest\<close> ends: an exception leaves it (the caller in
  \<^verbatim>\<open>main\<close> answers 500), or the request was handed to a transport, after the listed
  headers were set on the response, or the dispatcher wrote the response itself.
\<close>

datatype payload = Json jsval | Plain string

datatype outcome =
    Threw string
  | Forwarded transport "(string \<times> string) list"
  | Replied nat "(string \<times> string) list" payload

definition invalid_session :: outcome where
  "invalid_session =
     Replied 400 [(''Content-Type'', ''application/json'')]
       (Json (JObject
         [(''error'', JString ''Invalid session ID''),
          (''message'', JString
            ''The provided session ID is no longer valid. Please reinitialize the connection.'')]))"

definition no_session :: outcome where
  "no_session =
     Replied 400 [(''Content-Type'', ''application/json'')]
       (Json (JObject
         [(''error'', JString ''No session ID''),
          (''message'', JString
            ''GET requests require a valid session ID. Please initialize the connection first.'')]))"

definition invalid_request :: outcome where
  "invalid_request =
     Replied 400 [(''Content-Type'', ''application/json'')]
       (Json (JObject
         [(''error'', JString ''Invalid request''),
          (''message'', JString
            ''POST requests require a valid session ID or must be an initialize request.'')]))"

definition method_not_allowed :: outcome where
  "method_not_allowed = Replied 405 [(''Allow'', ''GET, POST'')] (Plain ''Method Not Allowed'')"

text \<open>
  The GET branch (lines 109 to 132).  \<^verbatim>\<open>sessionId && this.transports[sessionId]\<close> is truthy
  for an own transport and for an inherited member; calling \<^verbatim>\<open>handleRequest\<close> on the
  latter is a TypeError.
\<close>

definition handleGet :: "request \<Rightarrow> server \<Rightarrow> outcome \<times> server" where
  "handleGet req s =
     (case getSessionIdFromHeaders (headers req) of
        Some sessionId \<Rightarrow>
          (case get_prop (transports s) sessionId of
             Own transport \<Rightarrow>
               (Forwarded transport [], s\<lparr>sdk_calls := sdk_calls s @ [HandleRequest transport]\<rparr>)
           | Inherited \<Rightarrow> (Threw ''TypeError'', s)
           | Missing \<Rightarrow> (invalid_session, s))
      | None \<Rightarrow> (no_session, s))"

text \<open>
  Creating a session (lines 145 to 172): the new transport is connected, then, its
  \<^verbatim>\<open>sessionId\<close> being truthy, the header is set and both dictionaries are written.
\<close>

definition createSession :: "env \<Rightarrow> server \<Rightarrow> outcome \<times> server" where
  "createSession e s =
     (let generatedSessionId = randomUUID e;
          transport = StreamableHTTPServerTransport generatedSessionId;
          s1 = s\<lparr>sdk_calls := sdk_calls s @ [Connect transport]\<rparr>
      in if sessionId_of transport \<noteq> []
         then (Forwarded transport [(SESSION_ID_HEADER_NAME, sessionId_of transport)],
               s1\<lparr>transports := set_prop (transports s1) (sessionId_of transport) transport,
                   sessionTimestamps :=
                     set_prop (sessionTimestamps s1) (sessionId_of transport) (Date_now e),
                   sdk_calls := sdk_calls s1 @ [HandleRequest transport]\<rparr>)
         else (Forwarded transport [],
               s1\<lparr>sdk_calls := sdk_calls s1 @ [HandleRequest transport]\<rparr>))"

text \<open>
  The POST branch (lines 133 to 187).  Its four tests, in the order of the code:
  \<^verbatim>\<open>sessionId && this.transports[sessionId]\<close> holds in the cases \<open>Own\<close> and \<open>Inherited\<close>
  (the timestamp is written before the transport is called);
  \<^verbatim>\<open>!sessionId && this.isInitializeRequest(jsonBody)\<close> is the case \<open>None\<close> with the marker;
  \<^verbatim>\<open>sessionId && !this.transports[sessionId]\<close> is the case \<open>Missing\<close>; what is left is the
  case \<open>None\<close> without the marker.
\<close>

definition handlePost :: "env \<Rightarrow> request \<Rightarrow> jsval \<Rightarrow> server \<Rightarrow> outcome \<times> server" where
  "handlePost e req jsonBody s =
     (case getSessionIdFromHeaders (headers req) of
        Some sessionId \<Rightarrow>
          (case get_prop (transports s) sessionId of
             Own transport \<Rightarrow>
               (Forwarded transport [],
                s\<lparr>sessionTimestamps := set_prop (sessionTimestamps s) sessionId (Date_now e),
                  sdk_calls := sdk_calls s @ [HandleRequest transport]\<rparr>)
           | Inherited \<Rightarrow>
               (Threw ''TypeError'',
                s\<lparr>sessionTimestamps := set_prop (sessionTimestamps s) sessionId (Date_now e)\<rparr>)
           | Missing \<Rightarrow> (invalid_session, s))
      | None \<Rightarrow>
          if isInitializeRequest jsonBody then createSession e s
          else (invalid_request, s))"

definition handleRequest :: "env \<Rightarrow> request \<Rightarrow> server \<Rightarrow> outcome \<times> server" where
  "handleRequest e req s =
     (case jsonBody_of (body req) of
        None \<Rightarrow> (Threw ''SyntaxError'', s)
      | Some jsonBody \<Rightarrow>
          if method req = ''GET'' then handleGet req s
          else if method req = ''POST'' then handlePost e req jsonBody s
          else (method_not_allowed, s))"

text \<open>
  The callback \<^verbatim>\<open>main\<close> gives to \<^verbatim>\<open>createServer\<close>: an exception that leaves
  \<^verbatim>\<open>handleRequest\<close> is caught and answered with status 500.  (The exceptions modelled
  here are raised before anything is written to the response.)
  \<^verbatim>\<open>
  server.handleRequest(req, res).catch(err => {
      if (!res.writableEnded) { res.writeHead(500).end("Internal Server Error"); }
  });
  \<close>
\<close>

definition serve :: "env \<Rightarrow> request \<Rightarrow> server \<Rightarrow> outcome \<times> server" where
  "serve e req s =
     (case handleRequest e req s of
        (Threw err, s') \<Rightarrow> (Replied 500 [] (Plain ''Internal Server Error''), s')
      | (Forwarded transport hs, s') \<Rightarrow> (Forwarded transport hs, s')
      | (Replied status hs p, s') \<Rightarrow> (Replied status hs p, s'))"

text \<open>
  The format of the string \<^verbatim>\<open>randomUUID()\<close> returns: 36 characters, hyphens at
  positions 8, 13, 18 and 23, lower-case hexadecimal digits elsewhere.
\<close>

definition is_uuid :: "string \<Rightarrow> bool" where
  "is_uuid s =
     (length s = 36 \<and>
      list_all (\<lambda>(i, c). if i \<in> {8, 13, 18, 23 :: nat} then c = CHR ''-''
                          else c \<in> set ''0123456789abcdef'')
        (zip [0 ..< 36] s))"

section \<open>The tool handler\<close>

text \<open>
  \<^verbatim>\<open>registerTools\<close> gives every tool the same handler: a \<^verbatim>\<open>switch\<close> on the tool's method
  name that awaits one operation, inside \<^verbatim>\<open>try\<close>.  \<open>route\<close> is the switch: each
  \<^verbatim>\<open>case\<close> label with the operation it calls.
\<close>

definition route :: "(string \<times> string) list" where
  "route =
    [(''get_mcp_server_time'', ''system.getMcpServerTime''),
     (''get_manager_config'', ''system.getManagerConfig''),
     (''list_topology'', ''topology.listTopology''),
     (''get_instance_traffic'', ''monitoring.getInstanceTraffic''),
     (''get_service_traffic'', ''monitoring.getServiceTraffic''),
     (''get_instance_metrics_timeline'', ''monitoring.getInstanceMetricsTimeline''),
     (''search_traffic_events'', ''monitoring.searchTrafficEvents''),
     (''get_traffic_event_details'', ''monitoring.getTrafficEventDetails''),
     (''get_traffic_event_payload'', ''monitoring.getTrafficEventPayload''),
     (''get_traffic_event_trace'', ''monitoring.getTrafficEventTrace''),
     (''list_organizations'', ''organizations.listOrganizations''),
     (''get_organization'', ''organizations.getOrganization''),
     (''create_organization'', ''organizations.createOrganization''),
     (''update_organization'', ''organizations.updateOrganization''),
     (''delete_organization'', ''organizations.deleteOrganization''),
     (''list_users'', ''users.listUsers''),
     (''get_user'', ''users.getUser''),
     (''create_user'', ''users.createUser''),
     (''update_user'', ''users.updateUser''),
     (''delete_user'', ''users.deleteUser''),
     (''list_applications'', ''applications.listApplications''),
     (''get_application'', ''applications.getApplication''),
     (''get_api_keys_for_application'', ''applications.getApiKeysForApplication''),
     (''create_api_key'', ''applications.createApiKey''),
     (''get_oauth_credentials_for_application'', ''applications.getOAuthCredentialsForApplication''),
     (''create_oauth_credential'', ''applications.createOAuthCredential''),
     (''get_permissions_for_application'', ''applications.getPermissionsForApplication''),
     (''list_api_proxies'', ''proxies.listApiProxies''),
     (''get_api_proxy'', ''proxies.getApiProxy''),
     (''get_proxy_authentication_info'', ''proxies.getProxyAuthenticationInfo''),
     (''create_api_proxy'', ''proxies.createApiProxy''),
     (''update_api_proxy'', ''proxies.updateApiProxy''),
     (''delete_api_proxy'', ''proxies.deleteApiProxy''),
     (''publish_api'', ''proxies.publishApi''),
     (''unpublish_api'', ''proxies.unpublishApi''),
     (''deprecate_api'', ''proxies.deprecateApi''),
     (''list_backend_apis'', ''repository.listBackendApis''),
     (''import_backend_api_from_url'', ''repository.importBackendApiFromUrl''),
     (''delete_backend_api'', ''repository.deleteBackendApi''),
     (''import_backend_api_from_file'', ''repository.importBackendApiFromFile''),
     (''upload_file_for_import'', ''repository.uploadFileForImport''),
     (''list_api_access'', ''access.listApiAccess''),
     (''grant_api_access'', ''access.grantApiAccess''),
     (''revoke_api_access'', ''access.revokeApiAccess''),
     (''list_alerts'', ''alerts.listAlerts''),
     (''update_alert_settings'', ''alerts.updateAlertSettings''),
     (''get_application_quotas'', ''quotas.getApplicationQuotas''),
     (''update_application_quotas'', ''quotas.updateApplicationQuotas''),
     (''get_api_catalog'', ''proxies.listApiProxies''),
     (''get_metrics'', ''metrics.getMetrics'')]"

text \<open>
  How an awaited call ends.  The operations are the external collaborator: \<open>run\<close> below
  gives, for an operation and an argument bag, how the call of the matching \<^verbatim>\<open>case\<close> ends
  (the arguments it takes from the bag included).
\<close>

datatype 'a completion = Returned 'a | Thrown jsval

definition quote :: string where
  "quote = [char_of (39 :: nat)]"

definition try_block :: "(string \<Rightarrow> jsval \<Rightarrow> jsval completion) \<Rightarrow> string \<Rightarrow> jsval \<Rightarrow> jsval completion"
  where
  "try_block run tool_method args =
     (case map_of route tool_method of
        Some operation \<Rightarrow> run operation args
      | None \<Rightarrow>
          Thrown (Error (''Tool '' @ quote @ tool_method @ quote
                          @ '' is defined but not implemented in the server.'')))"

record content_item =
  type :: string
  "text" :: string

record envelope =
  content :: "content_item list"

text \<open>
  \<^verbatim>\<open>error.response?.data?.errors?.[0]?.message\<close>, for an \<^verbatim>\<open>error\<close> that is neither \<^verbatim>\<open>null\<close>
  nor \<^verbatim>\<open>undefined\<close>.
\<close>

definition structured_message :: "jsval \<Rightarrow> jsval" where
  "structured_message error =
     opt_member (opt_first (opt_member (opt_member (opt_member error ''response'') ''data'')
       ''errors'')) ''message''"

text \<open>
  \<^verbatim>\<open>
  const errorMessage = error.response?.data?.errors?.[0]?.message || error.message
                       || "An unknown error occurred.";
  \<close>
\<close>

definition errorMessage_of :: "jsval \<Rightarrow> jsval" where
  "errorMessage_of error =
     or_else (or_else (structured_message error) (opt_member error ''message''))
       (JString ''An unknown error occurred.'')"

text \<open>
  The handler.  \<open>stringify\<close> is \<^verbatim>\<open>JSON.stringify\<close> and \<open>to_string\<close> the string conversion
  of a template literal, both of the runtime and taken as parameters that return (a string
  converts to itself; \<^verbatim>\<open>JSON.stringify\<close> of the result stands inside \<^verbatim>\<open>try\<close>, so a throw
  of it would be caught like one of the operation).  Reading \<^verbatim>\<open>error.response\<close> of
  \<^verbatim>\<open>null\<close> or \<^verbatim>\<open>undefined\<close> is a TypeError that leaves the \<^verbatim>\<open>catch\<close> block.
  \<^verbatim>\<open>
  async (args) => {
      try {
          let result;
          switch (tool.method) { ... }
          return { content: [{ type: 'text', text: JSON.stringify(result) }] };
      } catch (error) {
          const errorMessage = ...;
          return { content: [{ type: 'text',
                   text: JSON.stringify({ error: `Execution failed: ${errorMessage}` }) }] };
      }
  }
  \<close>
\<close>

definition template :: "(jsval \<Rightarrow> string) \<Rightarrow> jsval \<Rightarrow> string" where
  "template to_string v = (case v of JString s \<Rightarrow> s | _ \<Rightarrow> to_string v)"

definition tool_handler ::
  "(jsval \<Rightarrow> string) \<Rightarrow> (jsval \<Rightarrow> string) \<Rightarrow> (string \<Rightarrow> jsval \<Rightarrow> jsval completion)
     \<Rightarrow> string \<Rightarrow> jsval \<Rightarrow> envelope completion" where
  "tool_handler stringify to_string run tool_method args =
     (case try_block run tool_method args of
        Returned result \<Rightarrow>
          Returned \<lparr>content = [\<lparr>type = ''text'', text = stringify result\<rparr>]\<rparr>
      | Thrown error \<Rightarrow>
          if error = JUndefined \<or> error = JNull then Thrown (Error ''TypeError'')
          else
            (let errorMessage = errorMessage_of error
             in Returned
                  \<lparr>content =
                     [\<lparr>type = ''text'',
                       text = stringify (JObject
                         [(''error'',
                           JString (''Execution failed: '' @ template to_string errorMessage))])\<rparr>]\<rparr>))"

section \<open>Runs of the server\<close>

text \<open>
  The registry changes in three ways: a request is handled, the timer fires and the reaper
  sweeps at the time \<^verbatim>\<open>Date.now()\<close> then returns, or the SDK runs the \<^verbatim>\<open>onclose\<close> handler
  of a transport.  The code between two \<^verbatim>\<open>await\<close>s runs without interruption and each of
  the three reads and writes the dictionaries within one such stretch, so a run of the
  server is a sequence of these events.
\<close>

datatype event = Request env request | Sweep int | TransportClosed string

fun step :: "event \<Rightarrow> server \<Rightarrow> server" where
  "step (Request e req) s = snd (handleRequest e req s)"
| "step (Sweep now) s = cleanupOldSessions now s"
| "step (TransportClosed sessionId) s = onclose sessionId s"

definition run_events :: "event list \<Rightarrow> server \<Rightarrow> server" where
  "run_events evs s = fold step evs s"

text \<open>The two dictionaries hold the same names.\<close>

definition in_sync :: "server \<Rightarrow> bool" where
  "in_sync s = (set (Object_keys (transports s)) = set (Object_keys (sessionTimestamps s)))"

text \<open>An event whose request, if it carries a session id, carries no inherited name.\<close>

fun plain_id :: "event \<Rightarrow> bool" where
  "plain_id (Request e req) =
     (case getSessionIdFromHeaders (headers req) of
        Some sessionId \<Rightarrow> sessionId \<notin> set Object_prototype_keys
      | None \<Rightarrow> True)"
| "plain_id _ = True"

section \<open>Example values\<close>

text \<open>A session id in the format of \<^verbatim>\<open>randomUUID()\<close>, and servers used in the examples below.\<close>

abbreviation (input) example_id :: string where
  "example_id \<equiv> ''123e4567-e89b-42d3-a456-426614174000''"

abbreviation (input) example_transport :: transport where
  "example_transport \<equiv> StreamableHTTPServerTransport example_id"

text \<open>The server after one initialize request whose session was last active at time \<open>t\<close>.\<close>

abbreviation (input) example_server :: "int \<Rightarrow> server" where
  "example_server t \<equiv>
     \<lparr>transports = [(example_id, example_transport)],
      sessionTimestamps = [(example_id, t)],
      transportMode = ''http'', cleanupTimer = Some 300000,
      sdk_calls = [Connect example_transport, HandleRequest example_transport]\<rparr>"

text \<open>The same server once that session has been removed.\<close>

abbreviation (input) swept_server :: server where
  "swept_server \<equiv>
     \<lparr>transports = [], sessionTimestamps = [],
      transportMode = ''http'', cleanupTimer = Some 300000,
      sdk_calls = [Connect example_transport, HandleRequest example_transport]\<rparr>"

abbreviation (input) example_env :: env where
  "example_env \<equiv> \<lparr>Date_now = 1801002, randomUUID = example_id\<rparr>"

text \<open>Repeated header values joined by a comma and a space.\<close>

abbreviation (input) comma_join :: "string \<Rightarrow> string \<Rightarrow> string \<Rightarrow> string" where
  "comma_join \<equiv> (\<lambda>field old new. old @ '', '' @ new)"

abbreviation (input) tools_list :: jsval where
  "tools_list \<equiv> JObject [(''jsonrpc'', JString ''2.0''), (''method'', JString ''tools/list'')]"

abbreviation (input) initialize :: jsval where
  "initialize \<equiv> JObject [(''jsonrpc'', JString ''2.0''), (''method'', JString ''initialize'')]"

text \<open>
  The error an HTTP client raises for a 404 answer that carries the manager's error list,
  and a stand-in for the two runtime conversions that prints a string and an object with
  one string field.
\<close>

abbreviation (input) axios_error :: jsval where
  "axios_error \<equiv>
     JObject
       [(''message'', JString ''Request failed with status code 404''),
        (''response'', JObject
           [(''status'', JNumber 404),
            (''data'', JObject
               [(''errors'', JArray
                  [JObject [(''code'', JNumber 102), (''message'', JString ''Unknown API'')]])])])]"

abbreviation (input) show_json :: "jsval \<Rightarrow> string" where
  "show_json \<equiv>
     (\<lambda>v. case v of
             JString s \<Rightarrow> s
           | JObject [(k, JString s)] \<Rightarrow> ''{'' @ k @ '': '' @ s @ ''}''
           | _ \<Rightarrow> ''?'')"

section \<open>Dictionaries: basic facts\<close>

lemma get_prop_Missing:
  "map_of obj k = None \<Longrightarrow> k \<notin> set Object_prototype_keys \<Longrightarrow> get_prop obj k = Missing"
  by (simp add: get_prop_def)

lemma get_prop_Own: "map_of obj k = Some v \<Longrightarrow> get_prop obj k = Own v"
  by (simp add: get_prop_def)

lemma map_of_delete_prop:
  "map_of (delete_prop obj k) k' = (if k' = k then None else map_of obj k')"
  by (simp add: delete_prop_def delete_conv)

lemma map_of_set_prop:
  "k \<noteq> ''__proto__'' \<Longrightarrow>
   map_of (set_prop obj k v) k' = (if k' = k then Some v else map_of obj k')"
  by (simp add: set_prop_def update_conv')

lemma keys_set_prop:
  "k \<noteq> ''__proto__'' \<Longrightarrow>
   set (Object_keys (set_prop obj k v)) = insert k (set (Object_keys obj))"
  by (simp add: set_prop_def Object_keys_def dom_update)

lemma keys_delete_prop:
  "set (Object_keys (delete_prop obj k)) = set (Object_keys obj) - {k}"
  by (auto simp: delete_prop_def Object_keys_def delete_keys)

text \<open>A generated id is not empty and is not the name of an inherited member.\<close>

lemma is_uuid_length: "is_uuid s \<Longrightarrow> length s = 36"
  by (simp add: is_uuid_def)

lemma is_uuid_not_inherited: "is_uuid s \<Longrightarrow> s \<notin> set Object_prototype_keys"
  by (auto simp: Object_prototype_keys_def dest!: is_uuid_length)

lemma is_uuid_nonempty: "is_uuid s \<Longrightarrow> s \<noteq> []"
  by (auto dest!: is_uuid_length)

lemma is_uuid_not_proto: "is_uuid s \<Longrightarrow> s \<noteq> ''__proto__''"
  by (auto dest!: is_uuid_length)

lemma is_uuid_example: "is_uuid example_id"
  by code_simp

section \<open>Reading the session id: basic facts\<close>

lemma variations_eval:
  "variations = [''mcp-session-id'', ''mcp-session-id'', ''MCP-SESSION-ID'',
                 ''mcp-session-id'', ''mcp-session-id'', ''MCP-SESSION-ID'']"
  by code_simp

lemma getSessionIdFromHeaders_absent:
  "map_of hs ''mcp-session-id'' = None \<Longrightarrow> map_of hs ''MCP-SESSION-ID'' = None \<Longrightarrow>
   getSessionIdFromHeaders hs = None"
  by (simp add: getSessionIdFromHeaders_def variations_eval)

lemma getSessionIdFromHeaders_lower:
  "map_of hs ''mcp-session-id'' = Some v \<Longrightarrow> v \<noteq> [] \<Longrightarrow>
   getSessionIdFromHeaders hs = Some v"
  by (simp add: getSessionIdFromHeaders_def variations_eval)

lemma getSessionIdFromHeaders_truthy:
  "getSessionIdFromHeaders hs = Some v \<Longrightarrow> v \<noteq> []"
  by (auto simp: getSessionIdFromHeaders_def variations_eval split: option.splits if_splits)

section \<open>The initialize marker\<close>

lemma check_iff:
  "check data = (\<exists>ps. data = JObject ps \<and> map_of ps ''method'' = Some (JString ''initialize''))"
  by (cases data) (auto simp: check_def split: option.splits)

text \<open>
  C10.  An array body is an initialize request exactly when at least one element is an
  object whose \<^verbatim>\<open>method\<close> is the string \<^verbatim>\<open>initialize\<close>; a body that is not an array is one
  exactly when it is itself such an object.
\<close>

theorem isInitializeRequest_iff:
  "(isInitializeRequest (JArray xs) =
     (\<exists>x \<in> set xs. \<exists>ps. x = JObject ps \<and> map_of ps ''method'' = Some (JString ''initialize'')))
   \<and> ((\<forall>ys. b \<noteq> JArray ys) \<longrightarrow>
        isInitializeRequest b =
          (\<exists>ps. b = JObject ps \<and> map_of ps ''method'' = Some (JString ''initialize'')))"
proof (intro conjI impI)
  show "isInitializeRequest (JArray xs) =
     (\<exists>x \<in> set xs. \<exists>ps. x = JObject ps \<and> map_of ps ''method'' = Some (JString ''initialize''))"
    by (simp add: list_ex_iff check_iff)
next
  assume "\<forall>ys. b \<noteq> JArray ys"
  then show "isInitializeRequest b =
     (\<exists>ps. b = JObject ps \<and> map_of ps ''method'' = Some (JString ''initialize''))"
    by (cases b) (simp_all add: check_iff)
qed

text \<open>
  At a batch whose second element is the handshake, at a batch without one, and at two
  single objects.
\<close>

theorem isInitializeRequest_iff_witness:
  "isInitializeRequest (JArray [tools_list, initialize])
   \<and> \<not> isInitializeRequest (JArray [tools_list, JString ''initialize''])
   \<and> isInitializeRequest initialize
   \<and> \<not> isInitializeRequest tools_list"
  using isInitializeRequest_iff [of "[tools_list, initialize]" initialize]
    isInitializeRequest_iff [of "[tools_list, JString ''initialize'']" tools_list]
  by simp

section \<open>The dispatcher\<close>

lemma rejected_when_missing:
  assumes "getSessionIdFromHeaders (headers req) = Some sid"
    and "get_prop (transports s) sid = Missing"
    and "jsonBody_of (body req) = Some jb"
    and "method req = ''GET'' \<or> method req = ''POST''"
  shows "handleRequest e req s = (invalid_session, s)"
  using assms by (auto simp: handleRequest_def handleGet_def handlePost_def)

text \<open>
  C1.  A POST from which no session id is read (as when its header map holds no
  session-id entry, \<open>getSessionIdFromHeaders_absent\<close>) and whose body parses to a value
  that is not an initialize request is answered with status 400 (``Invalid request''), and
  the server is left as it was: both dictionaries unchanged, no transport created or
  connected.
\<close>

theorem post_without_session_rejected:
  assumes "method req = ''POST''"
    and "getSessionIdFromHeaders (headers req) = None"
    and "jsonBody_of (body req) = Some jsonBody"
    and "\<not> isInitializeRequest jsonBody"
  shows "handleRequest e req s =
    (Replied 400 [(''Content-Type'', ''application/json'')]
       (Json (JObject
         [(''error'', JString ''Invalid request''),
          (''message'', JString
            ''POST requests require a valid session ID or must be an initialize request.'')])),
     s)"
  using assms by (simp add: handleRequest_def handlePost_def invalid_request_def)

text \<open>At a \<^verbatim>\<open>tools/list\<close> call sent without the header to a server holding one session.\<close>

theorem post_without_session_rejected_witness:
  "handleRequest example_env
     \<lparr>method = ''POST'', headers = [(''content-type'', ''application/json'')],
      body = Parsed tools_list\<rparr>
     (example_server 1000)
   = (invalid_request, example_server 1000)"
  using post_without_session_rejected
    [of "\<lparr>method = ''POST'', headers = [(''content-type'', ''application/json'')],
          body = Parsed tools_list\<rparr>"
        tools_list example_env "example_server 1000"]
  by (simp add: getSessionIdFromHeaders_absent check_def invalid_request_def)

text \<open>
  C6.  A POST from which no session id is read and whose body is an initialize request
  takes the id \<^verbatim>\<open>randomUUID()\<close> returns, creates and connects a transport for it, sets the
  \<^verbatim>\<open>mcp-session-id\<close> header of the response to it, stores the transport and the current
  time under it, leaves every other entry alone, and hands the request to the new
  transport.
\<close>

theorem initialize_creates_session:
  assumes "method req = ''POST''"
    and "getSessionIdFromHeaders (headers req) = None"
    and "jsonBody_of (body req) = Some jsonBody"
    and "isInitializeRequest jsonBody"
    and "is_uuid (randomUUID e)"
  shows "\<exists>s'. handleRequest e req s =
            (Forwarded (StreamableHTTPServerTransport (randomUUID e))
               [(''mcp-session-id'', randomUUID e)], s')
     \<and> get_prop (transports s') (randomUUID e) = Own (StreamableHTTPServerTransport (randomUUID e))
     \<and> get_prop (sessionTimestamps s') (randomUUID e) = Own (Date_now e)
     \<and> set (Object_keys (transports s')) = insert (randomUUID e) (set (Object_keys (transports s)))
     \<and> set (Object_keys (sessionTimestamps s'))
          = insert (randomUUID e) (set (Object_keys (sessionTimestamps s)))
     \<and> (\<forall>k. k \<noteq> randomUUID e \<longrightarrow>
            map_of (transports s') k = map_of (transports s) k
          \<and> map_of (sessionTimestamps s') k = map_of (sessionTimestamps s) k)
     \<and> sdk_calls s' = sdk_calls s
          @ [Connect (StreamableHTTPServerTransport (randomUUID e)),
             HandleRequest (StreamableHTTPServerTransport (randomUUID e))]"
proof -
  from assms(5) have ne: "randomUUID e \<noteq> []" and np: "randomUUID e \<noteq> ''__proto__''"
    by (simp_all add: is_uuid_nonempty is_uuid_not_proto)
  show ?thesis
    using assms(1-4) ne np
    by (simp add: handleRequest_def handlePost_def createSession_def Let_def
        SESSION_ID_HEADER_NAME_def get_prop_Own map_of_set_prop keys_set_prop)
qed

text \<open>At the first initialize request a fresh server in HTTP mode receives.\<close>

theorem initialize_creates_session_witness:
  "handleRequest \<lparr>Date_now = 1000, randomUUID = example_id\<rparr>
     \<lparr>method = ''POST'', headers = [(''content-type'', ''application/json'')],
      body = Parsed initialize\<rparr>
     (AxwayMcpServer ''http'')
   = (Forwarded example_transport [(''mcp-session-id'', example_id)], example_server 1000)"
proof -
  have h: "getSessionIdFromHeaders [(''content-type'', ''application/json'')] = None"
    by (simp add: getSessionIdFromHeaders_absent)
  have i: "isInitializeRequest initialize"
    by (simp add: check_def)
  from initialize_creates_session
    [of "\<lparr>method = ''POST'', headers = [(''content-type'', ''application/json'')],
          body = Parsed initialize\<rparr>"
        initialize "\<lparr>Date_now = 1000, randomUUID = example_id\<rparr>" "AxwayMcpServer ''http''"]
    is_uuid_example h i
  obtain s' where
    r: "handleRequest \<lparr>Date_now = 1000, randomUUID = example_id\<rparr>
         \<lparr>method = ''POST'', headers = [(''content-type'', ''application/json'')],
          body = Parsed initialize\<rparr>
         (AxwayMcpServer ''http'')
       = (Forwarded example_transport [(''mcp-session-id'', example_id)], s')"
    by auto
  have "snd (handleRequest \<lparr>Date_now = 1000, randomUUID = example_id\<rparr>
         \<lparr>method = ''POST'', headers = [(''content-type'', ''application/json'')],
          body = Parsed initialize\<rparr>
         (AxwayMcpServer ''http''))
      = example_server 1000"
    using h i
    by (simp add: handleRequest_def handlePost_def createSession_def Let_def AxwayMcpServer_def
        set_prop_def SESSION_ID_HEADER_NAME_def)
  with r show ?thesis by simp
qed

section \<open>The reaper and removal\<close>

lemma sweep_one_transports_absent:
  "map_of (transports s) k = None \<Longrightarrow> map_of (transports (sweep_one now k' s)) k = None"
  by (simp add: sweep_one_def map_of_delete_prop split: property.splits)

lemma sweep_one_timestamps_absent:
  "map_of (sessionTimestamps s) k = None \<Longrightarrow>
   map_of (sessionTimestamps (sweep_one now k' s)) k = None"
  by (simp add: sweep_one_def map_of_delete_prop split: property.splits)

lemma sweep_one_other:
  "k' \<noteq> k \<Longrightarrow>
   map_of (sessionTimestamps (sweep_one now k' s)) k = map_of (sessionTimestamps s) k"
  by (simp add: sweep_one_def map_of_delete_prop split: property.splits)

lemma sweep_one_expired:
  "map_of (sessionTimestamps s) k = Some t \<Longrightarrow> now - t > maxAge \<Longrightarrow>
   sweep_one now k s = onclose k s"
  by (simp add: sweep_one_def onclose_def get_prop_Own)

lemma onclose_absent:
  "map_of (transports (onclose k s)) k = None
   \<and> map_of (sessionTimestamps (onclose k s)) k = None"
  by (simp add: onclose_def map_of_delete_prop)

lemma onclose_noop:
  "map_of (transports s) sid = None \<Longrightarrow> map_of (sessionTimestamps s) sid = None \<Longrightarrow>
   onclose sid s = s"
  by (simp add: onclose_def delete_prop_def map_of_eq_None_iff)

lemma onclose_idem: "onclose sid (onclose sid s) = onclose sid s"
  by (simp add: onclose_def delete_prop_def delete_idem)

text \<open>
  The callbacks of a sweep commute, so the order in which \<^verbatim>\<open>Object.keys\<close> lists the names
  has no effect on the server a sweep leaves.
\<close>

lemma delete_prop_twist:
  "delete_prop (delete_prop obj a) b = delete_prop (delete_prop obj b) a"
  by (simp add: delete_prop_def delete_twist)

lemma get_prop_delete_other:
  "a \<noteq> b \<Longrightarrow> get_prop (delete_prop obj b) a = get_prop obj a"
  by (simp add: get_prop_def map_of_delete_prop)

lemma sweep_one_commute:
  "sweep_one now a (sweep_one now b s) = sweep_one now b (sweep_one now a s)"
proof (cases "a = b")
  case True
  then show ?thesis by simp
next
  case False
  then have "b \<noteq> a" by simp
  with False show ?thesis
    by (simp add: sweep_one_def get_prop_delete_other delete_prop_twist split: property.splits)
qed

text \<open>Once a name is gone from both dictionaries, the rest of a sweep does not bring it back.\<close>

lemma fold_sweep_absent:
  "map_of (transports s) k = None \<Longrightarrow> map_of (sessionTimestamps s) k = None \<Longrightarrow>
   map_of (transports (fold (sweep_one now) ks s)) k = None \<and>
   map_of (sessionTimestamps (fold (sweep_one now) ks s)) k = None"
proof (induction ks arbitrary: s)
  case Nil
  then show ?case by simp
next
  case (Cons k' ks)
  then show ?case
    by (simp add: sweep_one_transports_absent sweep_one_timestamps_absent)
qed

text \<open>
  The loop, by induction on the names still to visit: the callbacks before the one for
  \<open>k\<close> leave its timestamp alone, that one removes it, the later ones keep it removed.
\<close>

lemma fold_sweep_evicts:
  "map_of (sessionTimestamps s) k = Some t \<Longrightarrow> now - t > maxAge \<Longrightarrow> k \<in> set ks \<Longrightarrow>
   map_of (transports (fold (sweep_one now) ks s)) k = None \<and>
   map_of (sessionTimestamps (fold (sweep_one now) ks s)) k = None"
proof (induction ks arbitrary: s)
  case Nil
  then show ?case by simp
next
  case (Cons k' ks)
  show ?case
  proof (cases "k' = k")
    case True
    with Cons.prems have "sweep_one now k' s = onclose k s"
      by (simp add: sweep_one_expired)
    then show ?thesis
      using fold_sweep_absent [of "onclose k s" k now ks] onclose_absent [of k s] by simp
  next
    case False
    with Cons.prems
    have "map_of (sessionTimestamps (sweep_one now k' s)) k = Some t" "k \<in> set ks"
      by (simp_all add: sweep_one_other)
    then show ?thesis
      using Cons.IH [of "sweep_one now k' s"] Cons.prems(2) by simp
  qed
qed

lemma cleanup_evicts:
  assumes "map_of (sessionTimestamps s) k = Some t" "now - t > maxAge"
  shows "map_of (transports (cleanupOldSessions now s)) k = None"
    and "map_of (sessionTimestamps (cleanupOldSessions now s)) k = None"
proof -
  from assms(1) have "k \<in> set (Object_keys (sessionTimestamps s))"
    by (auto simp: Object_keys_def dest!: map_of_SomeD intro: rev_image_eqI)
  with assms show "map_of (transports (cleanupOldSessions now s)) k = None"
    and "map_of (sessionTimestamps (cleanupOldSessions now s)) k = None"
    unfolding cleanupOldSessions_def by (simp_all add: fold_sweep_evicts)
qed

lemma sweep_one_calls: "sdk_calls (sweep_one now k s) = sdk_calls s"
  by (simp add: sweep_one_def split: property.splits)

lemma fold_sweep_calls: "sdk_calls (fold (sweep_one now) ks s) = sdk_calls s"
  by (induction ks arbitrary: s) (simp_all add: sweep_one_calls)

lemma cleanup_calls: "sdk_calls (cleanupOldSessions now s) = sdk_calls s"
  by (simp add: cleanupOldSessions_def fold_sweep_calls)

lemma cleanup_example: "cleanupOldSessions 1801001 (example_server 1000) = swept_server"
  by (simp add: cleanupOldSessions_def Object_keys_def sweep_one_def get_prop_def maxAge_def
      delete_prop_def)

text \<open>
  C3.  The timer of a server in HTTP mode has a period of five minutes.  A sweep at time
  \<open>now\<close> removes every session whose timestamp is more than thirty minutes old from both
  dictionaries; a lookup of its id then finds nothing, and a GET or POST that carries the id
  is answered with status 400 (``Invalid session ID'') and changes nothing.  The ids are
  those the server generates.
\<close>

theorem idle_session_evicted:
  assumes "map_of (sessionTimestamps s) sid = Some t"
    and "now - t > 30 * 60 * 1000"
    and "is_uuid sid"
  shows "cleanupTimer (AxwayMcpServer ''http'') = Some (5 * 60 * 1000)
     \<and> get_prop (transports (cleanupOldSessions now s)) sid = Missing
     \<and> get_prop (sessionTimestamps (cleanupOldSessions now s)) sid = Missing
     \<and> (\<forall>e req jb.
           getSessionIdFromHeaders (headers req) = Some sid
         \<and> jsonBody_of (body req) = Some jb
         \<and> (method req = ''GET'' \<or> method req = ''POST'')
         \<longrightarrow> handleRequest e req (cleanupOldSessions now s)
               = (Replied 400 [(''Content-Type'', ''application/json'')]
                    (Json (JObject
                      [(''error'', JString ''Invalid session ID''),
                       (''message'', JString
                         ''The provided session ID is no longer valid. Please reinitialize the connection.'')])),
                  cleanupOldSessions now s))"
proof -
  from assms(2) have old: "now - t > maxAge"
    by (simp add: maxAge_def)
  from assms(3) have np: "sid \<notin> set Object_prototype_keys"
    by (rule is_uuid_not_inherited)
  have tr: "get_prop (transports (cleanupOldSessions now s)) sid = Missing"
    using cleanup_evicts(1) [OF assms(1) old] np by (rule get_prop_Missing)
  have ts: "get_prop (sessionTimestamps (cleanupOldSessions now s)) sid = Missing"
    using cleanup_evicts(2) [OF assms(1) old] np by (rule get_prop_Missing)
  have "cleanupTimer (AxwayMcpServer ''http'') = Some (5 * 60 * 1000)"
    by (simp add: AxwayMcpServer_def)
  moreover have "handleRequest e req (cleanupOldSessions now s)
      = (invalid_session, cleanupOldSessions now s)"
    if "getSessionIdFromHeaders (headers req) = Some sid"
      and "jsonBody_of (body req) = Some jb"
      and "method req = ''GET'' \<or> method req = ''POST''" for e req jb
    using rejected_when_missing [OF that(1) tr that(2) that(3)] .
  ultimately show ?thesis
    using tr ts unfolding invalid_session_def by blast
qed

text \<open>
  At a session last active at time 1000 and a sweep one millisecond past the timeout,
  followed by a POST that carries the id.
\<close>

theorem idle_session_evicted_witness:
  "cleanupOldSessions 1801001 (example_server 1000) = swept_server
   \<and> get_prop (transports swept_server) example_id = Missing
   \<and> get_prop (sessionTimestamps swept_server) example_id = Missing
   \<and> handleRequest example_env
        \<lparr>method = ''POST'', headers = [(''mcp-session-id'', example_id)],
         body = Parsed tools_list\<rparr>
        swept_server
      = (invalid_session, swept_server)"
proof -
  have a: "map_of (sessionTimestamps (example_server 1000)) example_id = Some 1000"
    by simp
  have b: "(1801001 :: int) - 1000 > 30 * 60 * 1000"
    by simp
  have h: "getSessionIdFromHeaders [(''mcp-session-id'', example_id)] = Some example_id"
    by (simp add: getSessionIdFromHeaders_lower)
  note th = idle_session_evicted [OF a b is_uuid_example, unfolded cleanup_example]
  from th have "handleRequest example_env
        \<lparr>method = ''POST'', headers = [(''mcp-session-id'', example_id)],
         body = Parsed tools_list\<rparr>
        swept_server
      = (invalid_session, swept_server)"
    using h unfolding invalid_session_def by simp
  with th cleanup_example show ?thesis by simp
qed

text \<open>
  C5, as the claim states it, fails: the sweep removes the example session and no call of
  \<^verbatim>\<open>close\<close> on its transport has been made.
\<close>

theorem reaper_close_counterexample:
  "get_prop (transports (example_server 1000)) example_id = Own example_transport
   \<and> get_prop (transports (cleanupOldSessions 1801001 (example_server 1000))) example_id = Missing
   \<and> Close example_transport \<notin> set (sdk_calls (cleanupOldSessions 1801001 (example_server 1000)))"
  by (simp add: cleanup_example) (simp add: get_prop_def Object_prototype_keys_def)

text \<open>
  C5, amended.  A sweep calls no method of any transport, \<^verbatim>\<open>close\<close> included: the list of
  SDK calls is the one before the sweep.  Every session whose timestamp is more than thirty
  minutes old is removed from both dictionaries.
\<close>

theorem reaper_removes_without_close:
  "sdk_calls (cleanupOldSessions now s) = sdk_calls s
   \<and> (map_of (sessionTimestamps s) sid = Some t \<and> now - t > 30 * 60 * 1000 \<longrightarrow>
        map_of (transports (cleanupOldSessions now s)) sid = None
      \<and> map_of (sessionTimestamps (cleanupOldSessions now s)) sid = None)"
  by (simp add: cleanup_calls cleanup_evicts maxAge_def)

theorem reaper_removes_without_close_witness:
  "sdk_calls (cleanupOldSessions 1801001 (example_server 1000)) = sdk_calls (example_server 1000)
   \<and> map_of (transports (cleanupOldSessions 1801001 (example_server 1000))) example_id = None
   \<and> map_of (sessionTimestamps (cleanupOldSessions 1801001 (example_server 1000))) example_id
       = None"
  using reaper_removes_without_close [of 1801001 "example_server 1000" example_id 1000]
  by simp

text \<open>
  C7.  Removal is the pair of \<^verbatim>\<open>delete\<close> statements of the \<^verbatim>\<open>onclose\<close> handler, which the
  reaper repeats for an expired session.  Removing an id that neither dictionary holds
  changes nothing; removing twice is removing once; after a removal neither dictionary
  holds the id, a lookup of it finds nothing, and a GET or POST that carries it is answered
  with ``Invalid session ID''.  Removal is a total function: it has no failing case.  The
  ids are those the server generates.
\<close>

theorem removal_idempotent:
  "(map_of (transports s) sid = None \<and> map_of (sessionTimestamps s) sid = None
      \<longrightarrow> onclose sid s = s)
   \<and> onclose sid (onclose sid s) = onclose sid s
   \<and> map_of (transports (onclose sid s)) sid = None
   \<and> map_of (sessionTimestamps (onclose sid s)) sid = None
   \<and> (map_of (sessionTimestamps s) sid = Some t \<and> now - t > 30 * 60 * 1000
      \<longrightarrow> sweep_one now sid s = onclose sid s)
   \<and> (is_uuid sid \<longrightarrow>
        get_prop (transports (onclose sid s)) sid = Missing
      \<and> (\<forall>e req jb.
            getSessionIdFromHeaders (headers req) = Some sid
          \<and> jsonBody_of (body req) = Some jb
          \<and> (method req = ''GET'' \<or> method req = ''POST'')
          \<longrightarrow> handleRequest e req (onclose sid s) = (invalid_session, onclose sid s)))"
proof -
  have lookup: "get_prop (transports (onclose sid s)) sid = Missing" if "is_uuid sid"
    using onclose_absent [of sid s] is_uuid_not_inherited [OF that]
    by (simp add: get_prop_Missing)
  have "handleRequest e req (onclose sid s) = (invalid_session, onclose sid s)"
    if "is_uuid sid" "getSessionIdFromHeaders (headers req) = Some sid"
      "jsonBody_of (body req) = Some jb" "method req = ''GET'' \<or> method req = ''POST''"
    for e req jb
    using rejected_when_missing [OF that(2) lookup [OF that(1)] that(3) that(4)] .
  with lookup show ?thesis
    using onclose_noop [of s sid] onclose_idem [of sid s] onclose_absent [of sid s]
      sweep_one_expired [of s sid t now]
    by (simp add: maxAge_def)
qed

text \<open>
  At the example session: its removal, a second removal, the reaper's step for it, and a
  GET that carries the id afterwards.
\<close>

theorem removal_idempotent_witness:
  "onclose example_id (example_server 1000) = swept_server
   \<and> onclose example_id swept_server = swept_server
   \<and> sweep_one 1801001 example_id (example_server 1000) = swept_server
   \<and> get_prop (transports swept_server) example_id = Missing
   \<and> handleRequest example_env
        \<lparr>method = ''GET'', headers = [(''mcp-session-id'', example_id)], body = NoBody\<rparr>
        swept_server
      = (invalid_session, swept_server)"
proof -
  have o: "onclose example_id (example_server 1000) = swept_server"
    by (simp add: onclose_def delete_prop_def)
  have h: "getSessionIdFromHeaders [(''mcp-session-id'', example_id)] = Some example_id"
    by (simp add: getSessionIdFromHeaders_lower)
  note first = removal_idempotent [of "example_server 1000" example_id 1000 1801001,
      unfolded o]
  note again = removal_idempotent [of swept_server example_id 1000 1801001]
  from first is_uuid_example h have
    "handleRequest example_env
        \<lparr>method = ''GET'', headers = [(''mcp-session-id'', example_id)], body = NoBody\<rparr>
        swept_server
      = (invalid_session, swept_server)"
    by simp
  moreover from again have "onclose example_id swept_server = swept_server"
    by simp
  moreover from first have "sweep_one 1801001 example_id (example_server 1000) = swept_server"
    by simp
  moreover from first is_uuid_example
  have "get_prop (transports swept_server) example_id = Missing"
    by simp
  ultimately show ?thesis
    using o by simp
qed

section \<open>Touching a session\<close>

lemma get_keeps_timestamps:
  "method req = ''GET'' \<Longrightarrow>
   sessionTimestamps (snd (handleRequest e req s)) = sessionTimestamps s"
  by (simp add: handleRequest_def handleGet_def split: option.splits property.splits)

lemma post_touches:
  assumes "method req = ''POST''"
    and "getSessionIdFromHeaders (headers req) = Some sid"
    and "map_of (transports s) sid = Some transport"
    and "jsonBody_of (body req) = Some jb"
    and "sid \<noteq> ''__proto__''"
  shows "map_of (sessionTimestamps (snd (handleRequest e req s))) sid = Some (Date_now e)"
  using assms by (simp add: handleRequest_def handlePost_def get_prop_Own map_of_set_prop)

text \<open>
  C4.  The code at a GET and at a POST that carry the id of the example session, last
  active at time 1000, when the clock reads 5000: both are handed to the session's
  transport; the POST sets the timestamp to 5000, the GET leaves it at 1000.
\<close>

theorem get_leaves_timestamp:
  "handleRequest \<lparr>Date_now = 5000, randomUUID = example_id\<rparr>
     \<lparr>method = ''GET'', headers = [(''mcp-session-id'', example_id)], body = NoBody\<rparr>
     (example_server 1000)
   = (Forwarded example_transport [],
      \<lparr>transports = [(example_id, example_transport)],
       sessionTimestamps = [(example_id, 1000)],
       transportMode = ''http'', cleanupTimer = Some 300000,
       sdk_calls = [Connect example_transport, HandleRequest example_transport,
                    HandleRequest example_transport]\<rparr>)
   \<and> handleRequest \<lparr>Date_now = 5000, randomUUID = example_id\<rparr>
     \<lparr>method = ''POST'', headers = [(''mcp-session-id'', example_id)], body = Parsed tools_list\<rparr>
     (example_server 1000)
   = (Forwarded example_transport [],
      \<lparr>transports = [(example_id, example_transport)],
       sessionTimestamps = [(example_id, 5000)],
       transportMode = ''http'', cleanupTimer = Some 300000,
       sdk_calls = [Connect example_transport, HandleRequest example_transport,
                    HandleRequest example_transport]\<rparr>)"
  by (simp add: handleRequest_def handleGet_def handlePost_def getSessionIdFromHeaders_lower
      get_prop_def set_prop_def)

section \<open>The casing of the header name\<close>

text \<open>
  On a map taken as it is, the function reads the name in two spellings only, all
  lower-case and all upper-case: the six entries of \<open>variations\<close> are these two.
\<close>

lemma two_spellings_read:
  "getSessionIdFromHeaders [(''mcp-session-id'', example_id)] = Some example_id
   \<and> getSessionIdFromHeaders [(''MCP-SESSION-ID'', example_id)] = Some example_id
   \<and> getSessionIdFromHeaders [(''Mcp-Session-Id'', example_id)] = None"
  by (simp add: getSessionIdFromHeaders_def variations_eval)







lemma lower_1: "toLowerCase ''mcp-session-id'' = ''mcp-session-id''"
  by code_simp

lemma lower_2: "toLowerCase ''MCP-SESSION-ID'' = ''mcp-session-id''"
  by code_simp

lemma lower_3: "toLowerCase ''Mcp-Session-Id'' = ''mcp-session-id''"
  by code_simp

lemma lower_4: "toLowerCase ''Host'' = ''host''"
  by code_simp

lemma lower_5: "toLowerCase ''Accept'' = ''accept''"
  by code_simp

lemmas lower_examples = lower_1 lower_2 lower_3 lower_4 lower_5

text \<open>Two lines for the session id, in different casings, end up joined under one name.\<close>

lemma joined_example:
  "incoming_headers comma_join [(''Mcp-Session-Id'', ''a''), (''mcp-session-id'', ''b'')]
     = [(''mcp-session-id'', ''a, b'')]"
  by (simp add: incoming_headers_def add_header_def lower_examples)



section \<open>The two dictionaries side by side\<close>

lemma keys_set_prop_any:
  "set (Object_keys (set_prop obj k v)) =
     (if k = ''__proto__'' then set (Object_keys obj) else insert k (set (Object_keys obj)))"
  by (simp add: set_prop_def Object_keys_def dom_update)

lemma get_prop_Own_key: "get_prop obj k = Own v \<Longrightarrow> k \<in> set (Object_keys obj)"
  by (auto simp: get_prop_def Object_keys_def split: option.splits if_splits
      dest!: map_of_SomeD intro: rev_image_eqI)

lemma get_prop_Inherited: "get_prop obj k = Inherited \<Longrightarrow> k \<in> set Object_prototype_keys"
  by (auto simp: get_prop_def split: option.splits if_splits)

text \<open>
  C9.  The code at a POST whose session-id header is \<^verbatim>\<open>constructor\<close>, sent to a fresh
  server: \<^verbatim>\<open>this.transports[sessionId]\<close> is the inherited member, so the branch for an
  existing session runs, writes a timestamp under that name and fails on the call of
  \<^verbatim>\<open>handleRequest\<close>.  The timestamps then hold a name the transports do not.
\<close>

theorem inherited_name_desynchronises:
  "handleRequest \<lparr>Date_now = 5000, randomUUID = example_id\<rparr>
     \<lparr>method = ''POST'', headers = [(''mcp-session-id'', ''constructor'')],
      body = Parsed tools_list\<rparr>
     (AxwayMcpServer ''http'')
   = (Threw ''TypeError'',
      \<lparr>transports = [], sessionTimestamps = [(''constructor'', 5000)],
       transportMode = ''http'', cleanupTimer = Some 300000, sdk_calls = []\<rparr>)"
  by (simp add: handleRequest_def handlePost_def getSessionIdFromHeaders_lower
      get_prop_def set_prop_def AxwayMcpServer_def Object_prototype_keys_def)

text \<open>
  Inherited names are the only way out of step: along a run in which no request carries
  one as its session id, the two dictionaries hold the same names after every event.
\<close>

lemma in_sync_sweep_one: "in_sync s \<Longrightarrow> in_sync (sweep_one now k s)"
  by (auto simp: in_sync_def sweep_one_def keys_delete_prop split: property.splits)

lemma in_sync_fold_sweep: "in_sync s \<Longrightarrow> in_sync (fold (sweep_one now) ks s)"
  by (induction ks arbitrary: s) (simp_all add: in_sync_sweep_one)

lemma in_sync_cleanup: "in_sync s \<Longrightarrow> in_sync (cleanupOldSessions now s)"
  by (simp add: cleanupOldSessions_def in_sync_fold_sweep)

lemma in_sync_onclose: "in_sync s \<Longrightarrow> in_sync (onclose k s)"
  by (auto simp: in_sync_def onclose_def keys_delete_prop)

lemma in_sync_create: "in_sync s \<Longrightarrow> in_sync (snd (createSession e s))"
  by (auto simp: in_sync_def createSession_def Let_def keys_set_prop_any)

lemma in_sync_get: "in_sync s \<Longrightarrow> in_sync (snd (handleGet req s))"
  by (auto simp: in_sync_def handleGet_def split: option.splits property.splits)

lemma in_sync_post:
  assumes "in_sync s" and "plain_id (Request e req)"
  shows "in_sync (snd (handlePost e req jb s))"
proof (cases "getSessionIdFromHeaders (headers req)")
  case None
  with assms(1) show ?thesis
    by (simp add: handlePost_def in_sync_create)
next
  case (Some sid)
  with assms(2) have plain: "sid \<notin> set Object_prototype_keys"
    by simp
  show ?thesis
  proof (cases "get_prop (transports s) sid")
    case (Own tr)
    then have "sid \<in> set (Object_keys (transports s))"
      by (rule get_prop_Own_key)
    with assms(1) Some Own show ?thesis
      by (auto simp: in_sync_def handlePost_def keys_set_prop_any)
  next
    case Inherited
    with plain show ?thesis
      by (simp add: get_prop_Inherited)
  next
    case Missing
    with assms(1) Some show ?thesis
      by (simp add: handlePost_def)
  qed
qed

lemma in_sync_step: "in_sync s \<Longrightarrow> plain_id ev \<Longrightarrow> in_sync (step ev s)"
proof (cases ev)
  case (Request e req)
  assume "in_sync s" "plain_id ev"
  with Request show ?thesis
    by (auto simp: handleRequest_def in_sync_get in_sync_post simp del: plain_id.simps
        split: option.splits)
next
  case (Sweep now)
  assume "in_sync s"
  with Sweep show ?thesis by (simp add: in_sync_cleanup)
next
  case (TransportClosed k)
  assume "in_sync s"
  with TransportClosed show ?thesis by (simp add: in_sync_onclose)
qed

lemma in_sync_initial: "in_sync (AxwayMcpServer mode)"
  by (simp add: in_sync_def AxwayMcpServer_def Object_keys_def)

lemma in_sync_run_events:
  "in_sync s \<Longrightarrow> list_all plain_id evs \<Longrightarrow> in_sync (run_events evs s)"
  unfolding run_events_def
  by (induction evs arbitrary: s) (simp_all add: in_sync_step)

lemma in_sync_reachable:
  "list_all plain_id evs \<Longrightarrow> in_sync (run_events evs (AxwayMcpServer mode))"
  by (simp add: in_sync_run_events in_sync_initial)

section \<open>The tool handler\<close>

lemma errorMessage_of_truthy: "truthy (errorMessage_of error)"
  by (simp add: errorMessage_of_def or_else_def)

lemma route_get_user: "map_of route ''get_user'' = Some ''users.getUser''"
  by (simp add: route_def)

text \<open>An operation the switch calls ends the \<^verbatim>\<open>try\<close> block the way its call ends.\<close>

lemma try_block_routed:
  "map_of route tool_method = Some operation \<Longrightarrow>
   try_block run tool_method args = run operation args"
  by (simp add: try_block_def)

text \<open>
  C2.  When the \<^verbatim>\<open>try\<close> block returns a result, the handler returns the envelope with one
  text item, the serialised result.  When it throws a value other than \<^verbatim>\<open>null\<close> and
  \<^verbatim>\<open>undefined\<close> (the operations throw error objects), the handler returns as well, with
  an envelope of the same shape whose text is the serialisation of an object with the
  single field \<^verbatim>\<open>error\<close>, holding \<^verbatim>\<open>Execution failed: \<close> followed by a message: the
  structured message \<^verbatim>\<open>response.data.errors[0].message\<close> when it is truthy, otherwise the
  error's own \<^verbatim>\<open>message\<close> when that is truthy, otherwise \<^verbatim>\<open>An unknown error occurred.\<close>
\<close>

theorem tool_failure_is_data:
  "(try_block run tool_method args = Returned result \<longrightarrow>
      tool_handler stringify to_string run tool_method args
        = Returned \<lparr>content = [\<lparr>type = ''text'', text = stringify result\<rparr>]\<rparr>)
   \<and> (try_block run tool_method args = Thrown error \<and> error \<noteq> JUndefined \<and> error \<noteq> JNull \<longrightarrow>
      (\<exists>msg.
         tool_handler stringify to_string run tool_method args
           = Returned \<lparr>content = [\<lparr>type = ''text'',
               text = stringify (JObject
                 [(''error'', JString (''Execution failed: '' @ template to_string msg))])\<rparr>]\<rparr>
       \<and> truthy msg
       \<and> (truthy (structured_message error) \<longrightarrow> msg = structured_message error)
       \<and> (\<not> truthy (structured_message error) \<and> truthy (opt_member error ''message'')
            \<longrightarrow> msg = opt_member error ''message'')
       \<and> (\<not> truthy (structured_message error) \<and> \<not> truthy (opt_member error ''message'')
            \<longrightarrow> msg = JString ''An unknown error occurred.'')))"
  by (simp add: tool_handler_def Let_def errorMessage_of_truthy)
     (simp add: errorMessage_of_def or_else_def)

text \<open>
  At the tool \<^verbatim>\<open>get_user\<close>, when its operation returns a user, and when it throws the
  HTTP client's error, a plain \<^verbatim>\<open>Error\<close>, and an object without a message.
\<close>

theorem tool_failure_is_data_witness:
  "tool_handler show_json show_json
       (\<lambda>operation args. Returned (JObject [(''name'', JString ''alice'')])) ''get_user''
       (JObject [(''id'', JString ''42'')])
     = Returned \<lparr>content = [\<lparr>type = ''text'', text = ''{name: alice}''\<rparr>]\<rparr>
   \<and> tool_handler show_json show_json (\<lambda>operation args. Thrown axios_error) ''get_user''
       (JObject [(''id'', JString ''42'')])
     = Returned \<lparr>content =
         [\<lparr>type = ''text'', text = ''{error: Execution failed: Unknown API}''\<rparr>]\<rparr>
   \<and> tool_handler show_json show_json
       (\<lambda>operation args. Thrown (Error ''connect ECONNREFUSED'')) ''get_user''
       (JObject [(''id'', JString ''42'')])
     = Returned \<lparr>content =
         [\<lparr>type = ''text'', text = ''{error: Execution failed: connect ECONNREFUSED}''\<rparr>]\<rparr>
   \<and> tool_handler show_json show_json (\<lambda>operation args. Thrown (JObject [])) ''get_user''
       (JObject [(''id'', JString ''42'')])
     = Returned \<lparr>content =
         [\<lparr>type = ''text'',
           text = ''{error: Execution failed: An unknown error occurred.}''\<rparr>]\<rparr>"
proof -
  have r: "try_block (\<lambda>operation args. Returned res) ''get_user'' a = Returned res" for res a
    by (simp add: try_block_def route_get_user)
  have t: "try_block (\<lambda>operation args. Thrown err) ''get_user'' a = Thrown err" for err a
    by (simp add: try_block_def route_get_user)
  have s1: "structured_message axios_error = JString ''Unknown API''"
    by (simp add: structured_message_def)
  have s2: "structured_message (Error ''connect ECONNREFUSED'') = JUndefined"
    by (simp add: structured_message_def Error_def)
  have s3: "structured_message (JObject []) = JUndefined"
    by (simp add: structured_message_def)
  from tool_failure_is_data
    [of "\<lambda>operation args. Returned (JObject [(''name'', JString ''alice'')])" "''get_user''"
        "JObject [(''id'', JString ''42'')]" "JObject [(''name'', JString ''alice'')]"
        show_json show_json JNull] r
  have ok: "tool_handler show_json show_json
       (\<lambda>operation args. Returned (JObject [(''name'', JString ''alice'')])) ''get_user''
       (JObject [(''id'', JString ''42'')])
     = Returned \<lparr>content = [\<lparr>type = ''text'', text = ''{name: alice}''\<rparr>]\<rparr>"
    by simp
  from tool_failure_is_data
    [of "\<lambda>operation args. Thrown axios_error" "''get_user''" "JObject [(''id'', JString ''42'')]"
        JNull show_json show_json axios_error] t s1
  have a: "tool_handler show_json show_json (\<lambda>operation args. Thrown axios_error) ''get_user''
       (JObject [(''id'', JString ''42'')])
     = Returned \<lparr>content =
         [\<lparr>type = ''text'', text = ''{error: Execution failed: Unknown API}''\<rparr>]\<rparr>"
    by (auto simp: template_def)
  from tool_failure_is_data
    [of "\<lambda>operation args. Thrown (Error ''connect ECONNREFUSED'')" "''get_user''"
        "JObject [(''id'', JString ''42'')]" JNull show_json show_json
        "Error ''connect ECONNREFUSED''"] t s2
  have b: "tool_handler show_json show_json
       (\<lambda>operation args. Thrown (Error ''connect ECONNREFUSED'')) ''get_user''
       (JObject [(''id'', JString ''42'')])
     = Returned \<lparr>content =
         [\<lparr>type = ''text'', text = ''{error: Execution failed: connect ECONNREFUSED}''\<rparr>]\<rparr>"
    by (auto simp: template_def Error_def)
  from tool_failure_is_data
    [of "\<lambda>operation args. Thrown (JObject [])" "''get_user''"
        "JObject [(''id'', JString ''42'')]" JNull show_json show_json "JObject []"] t s3
  have c: "tool_handler show_json show_json (\<lambda>operation args. Thrown (JObject [])) ''get_user''
       (JObject [(''id'', JString ''42'')])
     = Returned \<lparr>content =
         [\<lparr>type = ''text'',
           text = ''{error: Execution failed: An unknown error occurred.}''\<rparr>]\<rparr>"
    by (auto simp: template_def)
  from ok a b c show ?thesis by simp
qed

end
